theory Spec2Isabelle
  imports Main
begin

section \<open>The StereoRendering sample class (Samples/Core/StereoRendering/StereoRendering.h)\<close>

text \<open>
  The header declares one class, \<open>StereoRendering\<close>, derived from the engine's
  \<open>Renderer\<close>. It has two faces that are modelled here:

  \<^item> the object state: the data members with their default member initialisers, as a
    record with a construction function;
  \<^item> the class declaration itself: which members exist, at which line, with which access,
    type and parameters, and whether a member function has a body, as a table.
\<close>

subsection \<open>The nested enumeration (lines 62-67)\<close>

datatype RenderMode = Mono | Stereo | SinglePassStereo

subsection \<open>Object state (lines 47-77)\<close>

text \<open>
  The engine's resource types come from \<open>Falcor.h\<close>, which the header includes; they
  are opaque here. A \<open>SharedPtr\<close> or \<open>UniquePtr\<close> is a handle that is either null
  (\<open>None\<close>, the \<open>nullptr\<close> of the source) or refers to a resource.
\<close>

typedecl Scene
typedecl SceneRenderer
typedecl GraphicsProgram
typedecl GraphicsVars
typedecl GraphicsState
typedecl Sampler
typedecl VrFbo
typedecl DropdownList

type_synonym 'a SharedPtr = "'a option"
type_synonym 'a UniquePtr = "'a option"

record StereoRendering =
  mpScene :: "Scene SharedPtr"
  mpSceneRenderer :: "SceneRenderer SharedPtr"
  mpMonoSPSProgram :: "GraphicsProgram SharedPtr"
  mpMonoSPSVars :: "GraphicsVars SharedPtr"
  mpStereoProgram :: "GraphicsProgram SharedPtr"
  mpStereoVars :: "GraphicsVars SharedPtr"
  mpGraphicsState :: "GraphicsState SharedPtr"
  mpTriLinearSampler :: "Sampler SharedPtr"
  mSPSSupported :: bool
  mRenderMode :: RenderMode
  mSubmitModeList :: DropdownList
  mpVrFbo :: "VrFbo UniquePtr"
  mShowStereoViews :: bool

text \<open>
  Default construction. Eight members carry a default member initialiser in the header
  (lines 50, 51, 53, 54, 56, 69, 70, 77). The other five (\<open>mpScene\<close>,
  \<open>mpSceneRenderer\<close>, \<open>mpTriLinearSampler\<close>, \<open>mSubmitModeList\<close>, \<open>mpVrFbo\<close>) are
  default-constructed by their own types, which \<open>Falcor.h\<close> defines: their initial
  values are parameters.
\<close>

definition StereoRendering_init ::
  "Scene SharedPtr \<Rightarrow> SceneRenderer SharedPtr \<Rightarrow> Sampler SharedPtr \<Rightarrow> DropdownList \<Rightarrow>
   VrFbo UniquePtr \<Rightarrow> StereoRendering" where
  "StereoRendering_init scene0 renderer0 sampler0 list0 fbo0 =
    \<lparr> mpScene = scene0,
      mpSceneRenderer = renderer0,
      mpMonoSPSProgram = None,
      mpMonoSPSVars = None,
      mpStereoProgram = None,
      mpStereoVars = None,
      mpGraphicsState = None,
      mpTriLinearSampler = sampler0,
      mSPSSupported = False,
      mRenderMode = Mono,
      mSubmitModeList = list0,
      mpVrFbo = fbo0,
      mShowStereoViews = True \<rparr>"

text \<open>
  Modelled from the spec: the body of \<open>onGuiRender\<close> is missing (the header only declares
  it, line 41). The spec says that the demo "lets a user toggle between modes through a GUI
  dropdown". The first argument is the dropdown entry the user selected in this frame, if
  any; a selection becomes the render mode.
\<close>

definition onGuiRender :: "RenderMode option \<Rightarrow> StereoRendering \<Rightarrow> StereoRendering" where
  "onGuiRender selection s =
    (case selection of
       None \<Rightarrow> s
     | Some m \<Rightarrow> s \<lparr> mRenderMode := m \<rparr>)"

text \<open>
  The shader programs an object holds, each with the shader-variable object declared next
  to it (lines 50-51 and 53-54): the class has these two pairs of handles and no other
  program or variable handle.
\<close>

definition shader_programs ::
  "StereoRendering \<Rightarrow> (GraphicsProgram SharedPtr \<times> GraphicsVars SharedPtr) list" where
  "shader_programs s =
    [ (mpMonoSPSProgram s, mpMonoSPSVars s),
      (mpStereoProgram s, mpStereoVars s) ]"

text \<open>
  Modelled from the spec: the bodies of \<open>onLoad\<close> and \<open>initVR\<close> are missing (the header
  only declares them, lines 36 and 74). The spec says that the class's responsibility is
  to "load a scene, set up two shader programs (mono and stereo), manage a VR-specific
  framebuffer object". Of \<open>onLoad\<close> only the set-up of the two programs is modelled: its
  first four arguments are the mono program and the stereo program that the engine
  creates, each with its shader-variable object. The first argument of \<open>initVR\<close> is the
  framebuffer object that the engine creates for the headset; the source's parameter
  \<open>pTargetFbo\<close> would only be passed on to the engine.
\<close>

definition onLoad ::
  "GraphicsProgram \<Rightarrow> GraphicsVars \<Rightarrow> GraphicsProgram \<Rightarrow> GraphicsVars \<Rightarrow>
   StereoRendering \<Rightarrow> StereoRendering" where
  "onLoad monoProgram monoVars stereoProgram stereoVars s =
    s \<lparr> mpMonoSPSProgram := Some monoProgram,
        mpMonoSPSVars := Some monoVars,
        mpStereoProgram := Some stereoProgram,
        mpStereoVars := Some stereoVars \<rparr>"

definition initVR :: "VrFbo \<Rightarrow> StereoRendering \<Rightarrow> StereoRendering" where
  "initVR vrFbo s = s \<lparr> mpVrFbo := Some vrFbo \<rparr>"

subsection \<open>The class declaration as a table\<close>

datatype access = Public | Private

datatype member_kind = MemberFunction | DataMember | NestedEnum

text \<open>
  One entry per member declaration: the line of the header, the access section it stands
  in, the declared type (the return type of a member function), the name, the parameter
  declarations of a member function, the \<open>static\<close> and \<open>override\<close> specifiers, the
  default member initialiser of a data member, and whether a member function (or the
  enumeration) has its body in the header. The last two arguments of \<open>member_function\<close>
  are \<open>override\<close> and the body.
\<close>

record member_decl =
  decl_line :: nat
  decl_access :: access
  decl_kind :: member_kind
  decl_static :: bool
  decl_type :: string
  decl_name :: string
  decl_params :: "string list"
  decl_override :: bool
  decl_init :: "string option"
  decl_body :: bool

definition member_function ::
  "nat \<Rightarrow> access \<Rightarrow> string \<Rightarrow> string \<Rightarrow> string list \<Rightarrow> bool \<Rightarrow> bool \<Rightarrow> member_decl" where
  "member_function l a ty n ps ov body =
    \<lparr> decl_line = l, decl_access = a, decl_kind = MemberFunction, decl_static = False,
      decl_type = ty, decl_name = n, decl_params = ps, decl_override = ov,
      decl_init = None, decl_body = body \<rparr>"

definition data_member ::
  "nat \<Rightarrow> access \<Rightarrow> bool \<Rightarrow> string \<Rightarrow> string \<Rightarrow> string option \<Rightarrow> member_decl" where
  "data_member l a st ty n ini =
    \<lparr> decl_line = l, decl_access = a, decl_kind = DataMember, decl_static = st,
      decl_type = ty, decl_name = n, decl_params = [], decl_override = False,
      decl_init = ini, decl_body = False \<rparr>"

definition nested_enum :: "nat \<Rightarrow> access \<Rightarrow> string \<Rightarrow> member_decl" where
  "nested_enum l a n =
    \<lparr> decl_line = l, decl_access = a, decl_kind = NestedEnum, decl_static = False,
      decl_type = ''enum class'', decl_name = n, decl_params = [], decl_override = False,
      decl_init = None, decl_body = True \<rparr>"

text \<open>Lines 35-44: the section after \<open>public:\<close>.\<close>

definition public_section :: "member_decl list" where
  "public_section =
   [ member_function 36 Public ''void'' ''onLoad''
       [''SampleCallbacks* pSample'', ''RenderContext* pRenderContext''] True False,
     member_function 37 Public ''void'' ''onFrameRender''
       [''SampleCallbacks* pSample'', ''RenderContext* pRenderContext'',
        ''const Fbo::SharedPtr& pTargetFbo''] True False,
     member_function 38 Public ''void'' ''onResizeSwapChain''
       [''SampleCallbacks* pSample'', ''uint32_t width'', ''uint32_t height''] True False,
     member_function 39 Public ''bool'' ''onKeyEvent''
       [''SampleCallbacks* pSample'', ''const KeyboardEvent& keyEvent''] True False,
     member_function 40 Public ''bool'' ''onMouseEvent''
       [''SampleCallbacks* pSample'', ''const MouseEvent& mouseEvent''] True False,
     member_function 41 Public ''void'' ''onGuiRender''
       [''SampleCallbacks* pSample'', ''Gui* pGui''] True False,
     member_function 42 Public ''void'' ''onPrePresent''
       [''RenderContext* pContext''] True False,
     member_function 43 Public ''void'' ''onPostPresent''
       [''RenderContext* pContext''] True False ]"

text \<open>Lines 45-81: the section after \<open>private:\<close>, which runs to the end of the class.\<close>

definition private_section :: "member_decl list" where
  "private_section =
   [ data_member 47 Private False ''Scene::SharedPtr'' ''mpScene'' None,
     data_member 48 Private False ''SceneRenderer::SharedPtr'' ''mpSceneRenderer'' None,
     data_member 50 Private False ''GraphicsProgram::SharedPtr'' ''mpMonoSPSProgram''
       (Some ''nullptr''),
     data_member 51 Private False ''GraphicsVars::SharedPtr'' ''mpMonoSPSVars''
       (Some ''nullptr''),
     data_member 53 Private False ''GraphicsProgram::SharedPtr'' ''mpStereoProgram''
       (Some ''nullptr''),
     data_member 54 Private False ''GraphicsVars::SharedPtr'' ''mpStereoVars''
       (Some ''nullptr''),
     data_member 56 Private False ''GraphicsState::SharedPtr'' ''mpGraphicsState''
       (Some ''nullptr''),
     data_member 57 Private False ''Sampler::SharedPtr'' ''mpTriLinearSampler'' None,
     member_function 59 Private ''void'' ''loadScene'' [] False False,
     member_function 60 Private ''void'' ''loadScene''
       [''const std::string & filename''] False False,
     nested_enum 62 Private ''RenderMode'',
     data_member 69 Private False ''bool'' ''mSPSSupported'' (Some ''false''),
     data_member 70 Private False ''RenderMode'' ''mRenderMode'' (Some ''RenderMode::Mono''),
     data_member 71 Private False ''Gui::DropdownList'' ''mSubmitModeList'' None,
     member_function 73 Private ''void'' ''submitToScreen''
       [''RenderContext* pContext'', ''Fbo::SharedPtr pTargetFbo''] False False,
     member_function 74 Private ''void'' ''initVR'' [''Fbo* pTargetFbo''] False False,
     member_function 75 Private ''void'' ''blitTexture''
       [''RenderContext* pContext'', ''Fbo* pTargetFbo'', ''Texture::SharedPtr pTexture'',
        ''uint32_t xStart''] False False,
     data_member 76 Private False ''VrFbo::UniquePtr'' ''mpVrFbo'' None,
     data_member 77 Private False ''bool'' ''mShowStereoViews'' (Some ''true''),
     member_function 78 Private ''void'' ''submitStereo''
       [''RenderContext* pContext'', ''Fbo::SharedPtr pTargetFbo'',
        ''bool singlePassStereo''] False False,
     member_function 79 Private ''void'' ''setRenderMode'' [] False False,
     data_member 81 Private True ''const std::string'' ''skDefaultScene'' None ]"

definition StereoRendering_members :: "member_decl list" where
  "StereoRendering_members = public_section @ private_section"

definition members_of_kind :: "member_kind \<Rightarrow> member_decl list" where
  "members_of_kind k = filter (\<lambda>d. decl_kind d = k) StereoRendering_members"

text \<open>The members that the class body itself declares with public access.\<close>

definition declared_public_members :: "member_decl list" where
  "declared_public_members = filter (\<lambda>d. decl_access d = Public) StereoRendering_members"

definition lookup_member :: "string \<Rightarrow> member_decl list" where
  "lookup_member n = filter (\<lambda>d. decl_name d = n) StereoRendering_members"

text \<open>
  Members that the class has without declaring them. A C++ class that declares no
  constructor has an implicitly declared default constructor, and one that declares no
  destructor has an implicitly declared destructor; both are public members of the class.
  A constructor would be declared under the name of the class, a destructor under that
  name after a tilde.
\<close>

datatype special_member = DefaultConstructor | Destructor

definition special_member_name :: "special_member \<Rightarrow> string" where
  "special_member_name sm =
    (case sm of
       DefaultConstructor \<Rightarrow> ''StereoRendering''
     | Destructor \<Rightarrow> ''~StereoRendering'')"

definition user_declared :: "special_member \<Rightarrow> bool" where
  "user_declared sm = (lookup_member (special_member_name sm) \<noteq> [])"

definition implicitly_declared :: "special_member list" where
  "implicitly_declared = filter (\<lambda>sm. \<not> user_declared sm) [DefaultConstructor, Destructor]"

text \<open>
  The class's own members that code outside the class can use: the declared public members
  and the implicitly declared constructor and destructor. The public members of the base
  class \<open>Renderer\<close>, which the class inherits through \<open>: public Renderer\<close> (line 33),
  come on top; they are declared in \<open>Falcor.h\<close> and are not listed here. So do the
  implicitly declared copy and move operations.
\<close>

datatype public_member = Declared member_decl | Implicit special_member

definition public_member_name :: "public_member \<Rightarrow> string" where
  "public_member_name pm =
    (case pm of
       Declared d \<Rightarrow> decl_name d
     | Implicit sm \<Rightarrow> special_member_name sm)"

definition publicly_accessible :: "public_member list" where
  "publicly_accessible = map Declared declared_public_members @ map Implicit implicitly_declared"

definition fields_of_type :: "string \<Rightarrow> (nat \<times> string) list" where
  "fields_of_type ty =
    map (\<lambda>d. (decl_line d, decl_name d))
      (filter (\<lambda>d. decl_type d = ty) (members_of_kind DataMember))"

subsection \<open>The layout of the header file\<close>

datatype top_level = LicenseComment | PragmaOnce | Include string | UsingNamespace string
  | ClassDefinition string string

text \<open>
  The top-level items of the file with their first and last line: the licence comment,
  \<open>#pragma once\<close>, \<open>#include "Falcor.h"\<close>, \<open>using namespace Falcor;\<close> and the class
  (name and public base), whose closing \<open>};\<close> is the last line. Lines 30 and 32 are
  blank.
\<close>

definition header_items :: "(nat \<times> nat \<times> top_level) list" where
  "header_items =
   [ (1, 27, LicenseComment),
     (28, 28, PragmaOnce),
     (29, 29, Include ''Falcor.h''),
     (31, 31, UsingNamespace ''Falcor''),
     (33, 82, ClassDefinition ''StereoRendering'' ''Renderer'') ]"

definition header_line_count :: nat where
  "header_line_count = fold max (map (\<lambda>(first, last, item). last) header_items) 0"

fun declares_type :: "top_level \<Rightarrow> string list" where
  "declares_type (ClassDefinition n base) = [n]"
| "declares_type LicenseComment = []"
| "declares_type PragmaOnce = []"
| "declares_type (Include f) = []"
| "declares_type (UsingNamespace ns) = []"

definition declared_classes :: "string list" where
  "declared_classes = concat (map (\<lambda>(first, last, item). declares_type item) header_items)"

section \<open>Properties\<close>

subsection \<open>Helper facts\<close>

lemma RenderMode_UNIV: "(UNIV :: RenderMode set) = {Mono, Stereo, SinglePassStereo}"
proof
  show "(UNIV :: RenderMode set) \<subseteq> {Mono, Stereo, SinglePassStereo}"
  proof
    fix m :: RenderMode
    show "m \<in> {Mono, Stereo, SinglePassStereo}" by (cases m) simp_all
  qed
qed simp

lemmas member_table_defs =
  StereoRendering_members_def public_section_def private_section_def
  member_function_def data_member_def nested_enum_def

subsection \<open>Render modes and their selection\<close>

text \<open>
  C1. The render mode takes exactly three values: monoscopic, naive stereo and
  single-pass stereo. The user toggles between them through a GUI dropdown: the entry
  selected in the dropdown becomes \<open>mRenderMode\<close>, and a frame without a selection
  leaves the object as it is. (The enumeration is the header's; \<open>onGuiRender\<close> follows
  the spec.)
\<close>

theorem render_mode_three_values_selected_by_dropdown:
  "(UNIV :: RenderMode set) = {Mono, Stereo, SinglePassStereo}
   \<and> card (UNIV :: RenderMode set) = 3
   \<and> mRenderMode (onGuiRender (Some m) s) = m
   \<and> onGuiRender None s = s"
  by (simp add: RenderMode_UNIV onGuiRender_def)

subsection \<open>Access to the members\<close>

text \<open>
  C2, as the spec has it: the public interface of the class consists exactly of the eight
  callbacks, and no other member is publicly accessible. It does not: the class declares
  no constructor, so its implicitly declared default constructor is a public member too,
  and it is none of the eight.
\<close>

theorem implicit_constructor_is_publicly_accessible:
  "Implicit DefaultConstructor \<in> set publicly_accessible
   \<and> public_member_name (Implicit DefaultConstructor) \<notin>
       set [''onLoad'', ''onFrameRender'', ''onResizeSwapChain'', ''onKeyEvent'',
            ''onMouseEvent'', ''onGuiRender'', ''onPrePresent'', ''onPostPresent'']
   \<and> map public_member_name publicly_accessible \<noteq>
       [''onLoad'', ''onFrameRender'', ''onResizeSwapChain'', ''onKeyEvent'',
        ''onMouseEvent'', ''onGuiRender'', ''onPrePresent'', ''onPostPresent'']"
  by (simp add: publicly_accessible_def declared_public_members_def implicitly_declared_def
      user_declared_def lookup_member_def special_member_name_def public_member_name_def
      member_table_defs)

text \<open>
  C2, amended. The members that the class itself declares as public are exactly the eight
  framework callback methods \<open>onLoad\<close>, \<open>onFrameRender\<close>, \<open>onResizeSwapChain\<close>,
  \<open>onKeyEvent\<close>, \<open>onMouseEvent\<close>, \<open>onGuiRender\<close>, \<open>onPrePresent\<close> and
  \<open>onPostPresent\<close>, each a member function that overrides one of the base class; the
  other 22 of the 30 members it declares are private. The class declares neither a
  constructor nor a destructor, so besides the eight callbacks its implicitly declared
  default constructor and destructor are publicly accessible.
\<close>

theorem declared_public_members_are_eight_callbacks:
  "map decl_name declared_public_members =
     [''onLoad'', ''onFrameRender'', ''onResizeSwapChain'', ''onKeyEvent'', ''onMouseEvent'',
      ''onGuiRender'', ''onPrePresent'', ''onPostPresent'']
   \<and> filter (\<lambda>d. decl_kind d \<noteq> MemberFunction) declared_public_members = []
   \<and> filter (\<lambda>d. \<not> decl_override d) declared_public_members = []
   \<and> length StereoRendering_members = 30
   \<and> length (filter (\<lambda>d. decl_access d = Private) StereoRendering_members) = 22
   \<and> implicitly_declared = [DefaultConstructor, Destructor]
   \<and> publicly_accessible =
       map Declared declared_public_members
       @ [Implicit DefaultConstructor, Implicit Destructor]"
  by (simp add: publicly_accessible_def declared_public_members_def implicitly_declared_def
      user_declared_def lookup_member_def special_member_name_def member_table_defs)

text \<open>
  C3, as the spec has it: \<open>skDefaultScene\<close> is part of what the class makes externally
  accessible. It is not: no publicly accessible member of the class has that name.
\<close>

theorem skDefaultScene_not_publicly_accessible:
  "''skDefaultScene'' \<notin> set (map public_member_name publicly_accessible)"
  by (simp add: publicly_accessible_def declared_public_members_def implicitly_declared_def
      user_declared_def lookup_member_def special_member_name_def public_member_name_def
      member_table_defs)

text \<open>
  C3, amended. The class declares \<open>skDefaultScene\<close>, the scene-file path convention,
  once, as a private static data member of type \<open>const std::string\<close> (line 81); none of
  its public members, declared or implicit, has that name, so it is not part of what the
  class makes externally accessible.
\<close>

theorem skDefaultScene_is_private_static_const:
  "map (\<lambda>d. (decl_line d, decl_access d, decl_kind d, decl_static d, decl_type d))
      (lookup_member ''skDefaultScene'')
     = [(81, Private, DataMember, True, ''const std::string'')]
   \<and> filter (\<lambda>d. decl_name d = ''skDefaultScene'') declared_public_members = []
   \<and> filter (\<lambda>pm. public_member_name pm = ''skDefaultScene'') publicly_accessible = []"
  by (simp add: publicly_accessible_def declared_public_members_def implicitly_declared_def
      user_declared_def lookup_member_def special_member_name_def public_member_name_def
      member_table_defs)

subsection \<open>Declarations without definitions\<close>

text \<open>
  C4. The file is a header of 82 lines whose only top-level declaration is the class
  \<open>StereoRendering\<close>. The class declares fifteen member functions (\<open>loadScene\<close> twice,
  as an overload), among them \<open>onLoad\<close>, \<open>onFrameRender\<close>, \<open>submitStereo\<close>,
  \<open>submitToScreen\<close>, \<open>blitTexture\<close>, \<open>initVR\<close>, \<open>loadScene\<close> and \<open>setRenderMode\<close>, and
  none of them has a body.
\<close>

theorem header_declares_operations_without_bodies:
  "header_line_count = 82
   \<and> declared_classes = [''StereoRendering'']
   \<and> map decl_name (members_of_kind MemberFunction) =
       [''onLoad'', ''onFrameRender'', ''onResizeSwapChain'', ''onKeyEvent'', ''onMouseEvent'',
        ''onGuiRender'', ''onPrePresent'', ''onPostPresent'', ''loadScene'', ''loadScene'',
        ''submitToScreen'', ''initVR'', ''blitTexture'', ''submitStereo'', ''setRenderMode'']
   \<and> filter decl_body (members_of_kind MemberFunction) = []"
  by (simp add: header_line_count_def declared_classes_def header_items_def
      members_of_kind_def member_table_defs)

subsection \<open>Shader programs and the VR framebuffer\<close>

text \<open>
  C5. The class sets up exactly two shader programs, one for mono and single-pass stereo
  and one for stereo, each paired with a shader-variable object of its own, and manages a
  single VR framebuffer object, \<open>mpVrFbo\<close>. The class has exactly two program handles,
  two shader-variable handles, one next to each program, and one VR framebuffer handle
  (the header's declarations); \<open>onLoad\<close> makes the two pairs refer to the two programs
  with their variables, and \<open>initVR\<close> makes \<open>mpVrFbo\<close> refer to the headset's
  framebuffer (both follow the spec).
\<close>

theorem two_programs_with_vars_one_vr_fbo:
  "fields_of_type ''GraphicsProgram::SharedPtr'' =
       [(50, ''mpMonoSPSProgram''), (53, ''mpStereoProgram'')]
   \<and> fields_of_type ''GraphicsVars::SharedPtr'' =
       [(51, ''mpMonoSPSVars''), (54, ''mpStereoVars'')]
   \<and> fields_of_type ''VrFbo::UniquePtr'' = [(76, ''mpVrFbo'')]
   \<and> shader_programs (onLoad monoProgram monoVars stereoProgram stereoVars s) =
       [(Some monoProgram, Some monoVars), (Some stereoProgram, Some stereoVars)]
   \<and> mpVrFbo (initVR vrFbo s) = Some vrFbo"
  by (simp add: fields_of_type_def members_of_kind_def member_table_defs
      shader_programs_def onLoad_def initVR_def)

subsection \<open>The default-constructed object\<close>

text \<open>
  C9. Every default-constructed object starts in render mode \<open>Mono\<close>, with single-pass
  stereo marked as unsupported and with the display of the stereo views switched on,
  whatever the engine's types give the members that have no initialiser.
\<close>

theorem default_mode_and_flags:
  "mRenderMode (StereoRendering_init scene0 renderer0 sampler0 list0 fbo0) = Mono
   \<and> mSPSSupported (StereoRendering_init scene0 renderer0 sampler0 list0 fbo0) = False
   \<and> mShowStereoViews (StereoRendering_init scene0 renderer0 sampler0 list0 fbo0) = True"
  by (simp add: StereoRendering_init_def)

text \<open>
  C10. In every default-constructed object the handles of the two shader programs, of
  their two shader-variable objects and of the graphics state are null; they keep that
  value until an operation assigns them.
\<close>

theorem default_handles_are_null:
  "mpMonoSPSProgram (StereoRendering_init scene0 renderer0 sampler0 list0 fbo0) = None
   \<and> mpMonoSPSVars (StereoRendering_init scene0 renderer0 sampler0 list0 fbo0) = None
   \<and> mpStereoProgram (StereoRendering_init scene0 renderer0 sampler0 list0 fbo0) = None
   \<and> mpStereoVars (StereoRendering_init scene0 renderer0 sampler0 list0 fbo0) = None
   \<and> mpGraphicsState (StereoRendering_init scene0 renderer0 sampler0 list0 fbo0) = None"
  by (simp add: StereoRendering_init_def)

end
